theory Spec2Isabelle
  imports Complex_Main
begin

section \<open>Python values\<close>

text \<open>
  The geometry core of \<^verbatim>\<open>app13-1.py\<close> computes with Python floats and builds Python
  strings. A finite float is modelled by the real number it denotes, so every arithmetic
  operation is exact: the rounding of single operations to 53 bits is not part of the
  model. A Python string is a list of characters; the degree sign U+00B0 is the
  character \<open>CHR 0xB0\<close>.
\<close>

text \<open>\<^verbatim>\<open>int(x)\<close> on a float truncates towards zero.\<close>

definition py_int :: "real \<Rightarrow> int" where
  "py_int x = (if 0 \<le> x then \<lfloor>x\<rfloor> else \<lceil>x\<rceil>)"

definition digit_char :: "nat \<Rightarrow> char" where
  "digit_char d = ''0123456789'' ! d"

text \<open>The decimal digits of a natural number, most significant first.\<close>

fun str_nat :: "nat \<Rightarrow> string" where
  "str_nat n = (if n < 10 then [digit_char n] else str_nat (n div 10) @ [digit_char (n mod 10)])"

declare str_nat.simps [simp del]

text \<open>\<^verbatim>\<open>s.rjust(w, '0')\<close> and \<^verbatim>\<open>s.ljust(w, c)\<close>.\<close>

definition zfill :: "nat \<Rightarrow> string \<Rightarrow> string" where
  "zfill w s = replicate (w - length s) CHR ''0'' @ s"

definition ljust :: "nat \<Rightarrow> char \<Rightarrow> string \<Rightarrow> string" where
  "ljust w c s = s @ replicate (w - length s) c"

text \<open>
  The format specification \<^verbatim>\<open>02d\<close>: the decimal digits, filled with zeros on the left up
  to a width of two; a sign counts for the width and stays in front of the zeros.
\<close>

definition fmt_02d :: "int \<Rightarrow> string" where
  "fmt_02d i = (if i < 0 then CHR ''-'' # zfill 1 (str_nat (nat (- i))) else zfill 2 (str_nat (nat i)))"

text \<open>Rounding to the nearest integer, a tie going to the even neighbour.\<close>

definition round_half_even :: "real \<Rightarrow> int" where
  "round_half_even x =
     (let f = \<lfloor>x\<rfloor>; d = x - of_int f
      in if d < 1 / 2 then f else if 1 / 2 < d then f + 1 else if even f then f else f + 1)"

text \<open>
  The format specification \<^verbatim>\<open>.4f\<close>: the value rounded to four decimal places, written
  with its integer part, a point and exactly four fractional digits.
\<close>

definition fmt_4f :: "real \<Rightarrow> string" where
  "fmt_4f x =
     (let n = nat (round_half_even (\<bar>x\<bar> * 10 ^ 4))
      in (if x < 0 then ''-'' else '''') @ str_nat (n div 10 ^ 4) @ ''.'' @ zfill 4 (str_nat (n mod 10 ^ 4)))"

section \<open>The DMS formatter\<close>

text \<open>
  \<^verbatim>\<open>decimal_to_dms_formatted(decimal, is_lat)\<close>, lines 27 to 66, in three steps: the
  naive decomposition of lines 34 to 40, the carry of lines 43 to 48, and the rendering of
  lines 51 to 66.
\<close>

definition dms_direction :: "real \<Rightarrow> bool \<Rightarrow> string" where
  "dms_direction decimal is_lat =
     (if is_lat then (if 0 \<le> decimal then ''N'' else ''S'')
      else (if 0 \<le> decimal then ''E'' else ''W''))"

definition dms_naive :: "real \<Rightarrow> int \<times> int \<times> real" where
  "dms_naive decimal =
     (let abs_val = \<bar>decimal\<bar>;
          deg = py_int abs_val;
          min_full = (abs_val - of_int deg) * 60;
          min_val = py_int min_full;
          sec = (min_full - of_int min_val) * 60
      in (deg, min_val, sec))"

definition dms_carry :: "int \<times> int \<times> real \<Rightarrow> int \<times> int \<times> real" where
  "dms_carry t =
     (case t of (deg, min_val, sec) \<Rightarrow>
        if 59.99995 \<le> sec
        then (if 60 \<le> min_val + 1 then (deg + 1, 0, 0) else (deg, min_val + 1, 0))
        else (deg, min_val, sec))"

definition sec_format :: "real \<Rightarrow> string" where
  "sec_format sec =
     (let sec_int = py_int sec;
          sec_frac = sec - of_int sec_int;
          sec_frac_formatted = drop 2 (fmt_4f sec_frac);
          sec_frac_formatted =
            (if length sec_frac_formatted < 4 then ljust 4 CHR ''0'' sec_frac_formatted
             else sec_frac_formatted)
      in fmt_02d sec_int @ ''.'' @ sec_frac_formatted)"

definition dms_render :: "int \<times> int \<times> real \<Rightarrow> string \<Rightarrow> string" where
  \<open>dms_render t direction =
     (case t of (deg, min_val, sec) \<Rightarrow>
        fmt_02d deg @ [CHR 0xB0] @ fmt_02d min_val @ [CHR 0x27] @ sec_format sec @ [CHR 0x22] @ direction)\<close>

definition decimal_to_dms_formatted :: "real \<Rightarrow> bool \<Rightarrow> string" where
  "decimal_to_dms_formatted decimal is_lat =
     dms_render (dms_carry (dms_naive decimal)) (dms_direction decimal is_lat)"

text \<open>
  The seconds field of a formatted coordinate: what stands between the minute mark
  and the second mark.
\<close>

definition seconds_field :: "string \<Rightarrow> string" where
  "seconds_field s = takeWhile (\<lambda>c. c \<noteq> CHR 0x22) (tl (dropWhile (\<lambda>c. c \<noteq> CHR 0x27) s))"

text \<open>The characters a formatted number is made of.\<close>

definition num_char :: "char \<Rightarrow> bool" where
  "num_char c = (c \<in> set ''-.0123456789'')"

section \<open>Exceptions and diagnostics\<close>

text \<open>
  An exception is modelled by its class; a \<^verbatim>\<open>ValueError\<close> carries the message the source
  gives it. The functions report through \<^verbatim>\<open>st.error\<close> and \<^verbatim>\<open>st.warning\<close> and go
  on: a function that reports returns, next to its value, the list of what it reported,
  in order. A report holds the fixed text of its f-string and the value formatted into it.
\<close>

datatype exn = ValueError string | ParseError | TypeError | UnicodeDecodeError

text \<open>
  A float as \<^verbatim>\<open>float(s)\<close> can return it: finite, an infinity, or not a number. Every
  comparison with a NaN is false.
\<close>

datatype pyfloat = Finite real | PosInf | NegInf | NaN

datatype diag = StError string exn | StWarning string "pyfloat list"

section \<open>The distance engine\<close>

definition radians :: "real \<Rightarrow> real" where
  "radians x = x * (pi / 180)"

text \<open>\<^verbatim>\<open>math.atan2(y, x)\<close>, the angle of the point \<open>(x, y)\<close> in \<open>(-\<pi>, \<pi>]\<close>.\<close>

definition atan2 :: "real \<Rightarrow> real \<Rightarrow> real" where
  "atan2 y x =
     (if 0 < x then arctan (y / x)
      else if x < 0 \<and> 0 \<le> y then arctan (y / x) + pi
      else if x < 0 \<and> y < 0 then arctan (y / x) - pi
      else if 0 < y then pi / 2
      else if y < 0 then - (pi / 2)
      else 0)"

text \<open>
  \<^verbatim>\<open>calculate_distance(lat1, lon1, lat2, lon2)\<close>, lines 69 to 88. The body runs inside
  \<^verbatim>\<open>try\<close>; the handler reports the exception and returns 0. Two places raise: the
  range check of line 76, and \<^verbatim>\<open>math.sqrt\<close> on a negative argument (a
  \<^verbatim>\<open>ValueError\<close> with the text \<^verbatim>\<open>math domain error\<close>).
\<close>

definition haversine_a :: "real \<Rightarrow> real \<Rightarrow> real \<Rightarrow> real \<Rightarrow> real" where
  "haversine_a lat1 lon1 lat2 lon2 =
     (let lat1 = radians lat1; lon1 = radians lon1; lat2 = radians lat2; lon2 = radians lon2;
          dlat = lat2 - lat1;
          dlon = lon2 - lon1
      in (sin (dlat / 2))\<^sup>2 + cos lat1 * cos lat2 * (sin (dlon / 2))\<^sup>2)"

definition calculate_distance :: "real \<Rightarrow> real \<Rightarrow> real \<Rightarrow> real \<Rightarrow> real \<times> diag list" where
  "calculate_distance lat1 lon1 lat2 lon2 =
     (let R = 6371000
      in if \<not> list_all (\<lambda>x. - 90 \<le> x \<and> x \<le> 90) [lat1, lat2]
            \<or> \<not> list_all (\<lambda>x. - 180 \<le> x \<and> x \<le> 180) [lon1, lon2]
         then (0, [StError ''Distance calculation error: '' (ValueError ''Invalid coordinate values'')])
         else
           let a = haversine_a lat1 lon1 lat2 lon2
           in if a < 0 \<or> 1 - a < 0
              then (0, [StError ''Distance calculation error: '' (ValueError ''math domain error'')])
              else
                let c = 2 * atan2 (sqrt a) (sqrt (1 - a))
                in (R * c, []))"




section \<open>The area engine: the fallback method\<close>

text \<open>\<^verbatim>\<open>calculate_polygon_area_approximate(coordinates)\<close>, lines 130 to 155.\<close>

definition area_term :: "(real \<times> real) list \<Rightarrow> nat \<Rightarrow> nat \<Rightarrow> real" where
  "area_term coordinates i j =
     (let (lat1, lon1) = coordinates ! i;
          (lat2, lon2) = coordinates ! j;
          lat1_rad = radians lat1;
          lat2_rad = radians lat2;
          lon1_rad = radians lon1;
          lon2_rad = radians lon2
      in (lon2_rad - lon1_rad) * (2 + sin lat1_rad + sin lat2_rad))"

definition calculate_polygon_area_approximate :: "(real \<times> real) list \<Rightarrow> real" where
  "calculate_polygon_area_approximate coordinates =
     (if length coordinates < 3 then 0
      else
        let R = 6371000;
            n = length coordinates;
            area = fold (\<lambda>i area. let j = (i + 1) mod n in area + area_term coordinates i j) [0 ..< n] 0;
            area = \<bar>area\<bar> * R * R / 2
        in area / 10000)"

section \<open>The axis-order normalizer\<close>

text \<open>
  \<^verbatim>\<open>ensure_lat_lon_order(coord)\<close>, lines 298 to 307. The indices are read only when the
  list has two elements.
\<close>

definition ensure_lat_lon_order :: "real list \<Rightarrow> real list" where
  "ensure_lat_lon_order coord =
     (if length coord = 2 then
        (if - 90 \<le> coord ! 0 \<and> coord ! 0 \<le> 90 \<and> - 180 \<le> coord ! 1 \<and> coord ! 1 \<le> 180
         then coord
         else if - 180 \<le> coord ! 0 \<and> coord ! 0 \<le> 180 \<and> - 90 \<le> coord ! 1 \<and> coord ! 1 \<le> 90
         then [coord ! 1, coord ! 0]
         else coord)
      else coord)"

section \<open>The KML codec\<close>

subsection \<open>Element trees\<close>

text \<open>
  What \<^verbatim>\<open>xml.etree.ElementTree\<close> hands to the code: an element has a tag (with its
  namespace in braces in front, as in \<^verbatim>\<open>{http://www.opengis.net/kml/2.2}Point\<close>), the
  text before its first child (\<^verbatim>\<open>None\<close> when there is none) and its children.
  The parser itself is the library's: \<^verbatim>\<open>ET.fromstring\<close> is a parameter of the model,
  returning the root element or raising.
\<close>

datatype element = Element (tag: string) (text_of: "string option") (children: "element list")

text \<open>\<^verbatim>\<open>Element.iter(tag)\<close>: the element itself and its descendants, in document order.\<close>

fun iter :: "string \<Rightarrow> element \<Rightarrow> element list" where
  "iter t (Element tg x cs) = (if tg = t then [Element tg x cs] else []) @ concat (map (iter t) cs)"

text \<open>
  \<^verbatim>\<open>root.findall('.//A')\<close> selects the descendants of the root with tag \<open>A\<close>, the root
  itself left out; \<^verbatim>\<open>root.findall('.//A//B')\<close> selects, for each of those, its descendants
  with tag \<open>B\<close>. The result is a list, and nothing removes repetitions from it.
\<close>

definition descendants :: "string \<Rightarrow> element \<Rightarrow> element list" where
  "descendants t e = concat (map (iter t) (children e))"

definition findall1 :: "string \<Rightarrow> element \<Rightarrow> element list" where
  "findall1 a root_elem = descendants a root_elem"

definition findall2 :: "string \<Rightarrow> string \<Rightarrow> element \<Rightarrow> element list" where
  "findall2 a b root_elem = concat (map (descendants b) (descendants a root_elem))"

text \<open>
  \<^verbatim>\<open>ET.XMLParser(recover=True)\<close>, line 173. The constructor of
  \<^verbatim>\<open>xml.etree.ElementTree.XMLParser\<close> takes the keyword arguments \<^verbatim>\<open>target\<close> and
  \<^verbatim>\<open>encoding\<close> only (\<^verbatim>\<open>recover\<close> is a keyword of another library's parser), so the
  call raises \<^verbatim>\<open>TypeError\<close> and returns no parser.
\<close>

definition XMLParser_recover :: "exn + (string \<Rightarrow> exn + element)" where
  "XMLParser_recover = Inl TypeError"

subsection \<open>Strings\<close>

text \<open>\<^verbatim>\<open>str.isspace\<close> on the characters below U+0100.\<close>

definition is_space :: "char \<Rightarrow> bool" where
  "is_space c = (c \<in> {CHR 0x09, CHR 0x0A, CHR 0x0B, CHR 0x0C, CHR 0x0D, CHR 0x1C, CHR 0x1D, CHR 0x1E,
                       CHR 0x1F, CHR 0x20, CHR 0x85, CHR 0xA0})"

definition strip :: "string \<Rightarrow> string" where
  "strip s = rev (dropWhile is_space (rev (dropWhile is_space s)))"

text \<open>
  \<^verbatim>\<open>s.split()\<close>: the maximal runs of characters that are not white space. The first
  argument is the run read so far.
\<close>

fun split_ws :: "string \<Rightarrow> string \<Rightarrow> string list" where
  "split_ws cur [] = (if cur = [] then [] else [cur])"
| "split_ws cur (c # cs) =
     (if is_space c then (if cur = [] then split_ws [] cs else cur # split_ws [] cs)
      else split_ws (cur @ [c]) cs)"

text \<open>\<^verbatim>\<open>s.split(sep)\<close> for a separator of one character: empty pieces are kept.\<close>

fun split_on :: "char \<Rightarrow> string \<Rightarrow> string \<Rightarrow> string list" where
  "split_on sep cur [] = [cur]"
| "split_on sep cur (c # cs) =
     (if c = sep then cur # split_on sep [] cs else split_on sep (cur @ [c]) cs)"

subsection \<open>Parsing\<close>

text \<open>
  \<^verbatim>\<open>parse_kml(file)\<close>, lines 166 to 233. The builtin \<^verbatim>\<open>float\<close> is a parameter:
  \<open>None\<close> stands for its \<^verbatim>\<open>ValueError\<close>.
\<close>

definition namespaces :: "(string \<times> string) list list" where
  "namespaces =
     [[(''kml'', ''http://www.opengis.net/kml/2.2'')],
      [(''kml'', ''http://earth.google.com/kml/2.0'')],
      [(''kml'', ''http://earth.google.com/kml/2.1'')],
      []]"

text \<open>Lines 187 to 195: the three searches of one candidate; the paths do not use \<open>ns\<close>.\<close>

definition coord_elements :: "(string \<times> string) list \<Rightarrow> element \<Rightarrow> element list" where
  "coord_elements ns root_elem =
     (if ns \<noteq> [] then
        findall1 ''{http://www.opengis.net/kml/2.2}coordinates'' root_elem
        @ findall2 ''{http://www.opengis.net/kml/2.2}Point'' ''{http://www.opengis.net/kml/2.2}coordinates'' root_elem
        @ findall2 ''{http://www.opengis.net/kml/2.2}LinearRing'' ''{http://www.opengis.net/kml/2.2}coordinates'' root_elem
      else
        findall1 ''coordinates'' root_elem
        @ findall2 ''Point'' ''coordinates'' root_elem
        @ findall2 ''LinearRing'' ''coordinates'' root_elem)"

definition in_range :: "real \<Rightarrow> pyfloat \<Rightarrow> real \<Rightarrow> bool" where
  "in_range lo v hi = (case v of Finite x \<Rightarrow> lo \<le> x \<and> x \<le> hi | _ \<Rightarrow> False)"

definition the_finite :: "pyfloat \<Rightarrow> real" where
  "the_finite v = (case v of Finite x \<Rightarrow> x | _ \<Rightarrow> 0)"

text \<open>
  Lines 201 to 212, one token of a coordinate text: the points it appends to
  \<^verbatim>\<open>coords\<close> and what it reports.
\<close>

definition parse_coord :: "(string \<Rightarrow> pyfloat option) \<Rightarrow> string \<Rightarrow> (real \<times> real) list \<times> diag list" where
  "parse_coord float coord =
     (let parts = split_on CHR '','' [] coord
      in if 2 \<le> length parts then
           (case float (parts ! 0) of
              None \<Rightarrow> ([], [])
            | Some lon \<Rightarrow>
                (case float (parts ! 1) of
                   None \<Rightarrow> ([], [])
                 | Some lat \<Rightarrow>
                     if in_range (- 90) lat 90 \<and> in_range (- 180) lon 180
                     then ([(the_finite lat, the_finite lon)], [])
                     else ([], [StWarning ''Skipping invalid coordinates: '' [lat, lon]])))
         else ([], []))"

text \<open>Lines 197 to 212, one element: nothing when its text is \<^verbatim>\<open>None\<close> or empty.\<close>

definition parse_elem :: "(string \<Rightarrow> pyfloat option) \<Rightarrow> element \<Rightarrow> (real \<times> real) list \<times> diag list" where
  "parse_elem float elem =
     (case text_of elem of
        None \<Rightarrow> ([], [])
      | Some t \<Rightarrow>
          if t = [] then ([], [])
          else
            let coord_text = strip t;
                rs = map (parse_coord float) (split_ws [] coord_text)
            in (concat (map fst rs), concat (map snd rs)))"

text \<open>
  Lines 184 to 218, the loop over the candidates: \<^verbatim>\<open>coords\<close> is extended by what the
  candidate's elements give, and the loop stops as soon as \<^verbatim>\<open>coords\<close> is not empty.
\<close>

fun probe :: "(string \<Rightarrow> pyfloat option) \<Rightarrow> element \<Rightarrow> (string \<times> string) list list
    \<Rightarrow> (real \<times> real) list \<times> diag list \<Rightarrow> (real \<times> real) list \<times> diag list" where
  "probe float root_elem [] acc = acc"
| "probe float root_elem (ns # rest) acc =
     (let rs = map (parse_elem float) (coord_elements ns root_elem);
          coords = fst acc @ concat (map fst rs);
          log = snd acc @ concat (map snd rs)
      in if coords \<noteq> [] then (coords, log) else probe float root_elem rest (coords, log))"

text \<open>\<^verbatim>\<open>round(x, 6)\<close>.\<close>

definition py_round6 :: "real \<Rightarrow> real" where
  "py_round6 x = of_int (round_half_even (x * 10 ^ 6)) / 10 ^ 6"

definition coord_tuple :: "real \<times> real \<Rightarrow> real \<times> real" where
  "coord_tuple coord = (py_round6 (fst coord), py_round6 (snd coord))"

text \<open>Lines 220 to 229: the loop that removes duplicates, with its set \<^verbatim>\<open>seen\<close>.\<close>

definition unique_coords :: "(real \<times> real) list \<Rightarrow> (real \<times> real) list" where
  "unique_coords coords =
     snd (fold (\<lambda>coord (seen, unique_coords).
                  if coord_tuple coord \<notin> seen
                  then (insert (coord_tuple coord) seen, unique_coords @ [coord])
                  else (seen, unique_coords))
               coords ({}, []))"

text \<open>
  The argument \<open>file\<close> is what \<^verbatim>\<open>file.read().decode('utf-8')\<close> evaluates to: the text,
  or the exception of the decoding. Lines 170 to 174: the strict parse, and on
  \<^verbatim>\<open>ParseError\<close> the construction of a second parser; any other exception, and any
  exception of the handler itself, reaches the outer handler of lines 231 to 233.
\<close>

definition parse_root :: "(string \<Rightarrow> exn + element) \<Rightarrow> string \<Rightarrow> exn + element" where
  "parse_root fromstring content =
     (case fromstring content of
        Inr root_elem \<Rightarrow> Inr root_elem
      | Inl ParseError \<Rightarrow>
          (case XMLParser_recover of
             Inl e \<Rightarrow> Inl e
           | Inr parser \<Rightarrow> parser content)
      | Inl e \<Rightarrow> Inl e)"

definition parse_kml :: "(string \<Rightarrow> exn + element) \<Rightarrow> (string \<Rightarrow> pyfloat option) \<Rightarrow> exn + string
    \<Rightarrow> (real \<times> real) list \<times> diag list" where
  "parse_kml fromstring float file =
     (case file of
        Inl e \<Rightarrow> ([], [StError ''KML Parsing Error: '' e])
      | Inr content \<Rightarrow>
          (case parse_root fromstring content of
             Inl e \<Rightarrow> ([], [StError ''KML Parsing Error: '' e])
           | Inr root_elem \<Rightarrow>
               let (coords, log) = probe float root_elem namespaces ([], [])
               in (unique_coords coords, log)))"


subsection \<open>Example documents\<close>

text \<open>
  Documents for the examples, each with the element tree that \<^verbatim>\<open>ET.fromstring\<close> builds
  from it: a placemark with one point, under a given \<^verbatim>\<open>xmlns\<close> attribute and with a
  given description, and a line string that repeats a coordinate triple. A parser for
  the examples is given by the table of the documents it accepts, and raises
  \<^verbatim>\<open>ParseError\<close> on any other text; \<^verbatim>\<open>float\<close> is given on the numerals that occur.
\<close>

definition point_doc :: "string \<Rightarrow> string \<Rightarrow> string" where
  \<open>point_doc xmlns description =
     ''<?xml version="1.0" encoding="UTF-8"?>\<newline><kml'' @ xmlns @ ''><Placemark><description>'' @ description
     @ ''</description><Point><coordinates>72.5,24.6,0</coordinates></Point></Placemark></kml>''\<close>

definition point_tree :: "string \<Rightarrow> string \<Rightarrow> element" where
  "point_tree ns description =
     Element (ns @ ''kml'') None
       [Element (ns @ ''Placemark'') None
          [Element (ns @ ''description'') (Some description) [],
           Element (ns @ ''Point'') None
             [Element (ns @ ''coordinates'') (Some ''72.5,24.6,0'') []]]]"

definition fromstring_table :: "(string \<times> element) list \<Rightarrow> string \<Rightarrow> exn + element" where
  "fromstring_table t s = (case map_of t s of Some e \<Rightarrow> Inr e | None \<Rightarrow> Inl ParseError)"

definition float_table :: "string \<Rightarrow> pyfloat option" where
  "float_table = map_of [(''72.5'', Finite 72.5), (''24.6'', Finite 24.6), (''72.501'', Finite 72.501),
     (''24.601'', Finite 24.601), (''24.602'', Finite 24.602), (''0'', Finite 0)]"



subsection \<open>Serializing\<close>

text \<open>
  A waypoint is a dictionary with the keys \<^verbatim>\<open>'lat'\<close> and \<^verbatim>\<open>'lon'\<close> (lines 163 and 1074).
\<close>

record waypoint =
  wp_lat :: real
  wp_lon :: real

text \<open>\<^verbatim>\<open>chr(n)\<close> for a code point below 256.\<close>

definition chr :: "nat \<Rightarrow> char" where
  "chr n = char_of n"

text \<open>
  \<^verbatim>\<open>create_kml_manual(waypoints, date, kml_filename)\<close>, lines 246 to 296. The f-strings
  format floats with \<^verbatim>\<open>str\<close>, a parameter of the model; \<open>date\<close> is the text that the
  date is formatted to. The pieces below are the string literals of the source, character
  by character.
\<close>

definition kml_header :: "string \<Rightarrow> string" where
  \<open>kml_header date =
     ''<?xml version="1.0" encoding="UTF-8"?>\<newline>''
     @ ''<kml xmlns="http://www.opengis.net/kml/2.2">\<newline>''
     @ ''  <Document>\<newline>''
     @ ''    <name>Flight Plan '' @ date @ ''</name>\<newline>''
     @ ''    <description>Drone Survey Waypoints</description>\<newline>''
     @ ''    ''\<close>

definition coord_token :: "(real \<Rightarrow> string) \<Rightarrow> waypoint \<Rightarrow> string" where
  "coord_token str wp = str (wp_lon wp) @ '','' @ str (wp_lat wp) @ '',0''"

definition placemark_text :: "(real \<Rightarrow> string) \<Rightarrow> nat \<Rightarrow> waypoint \<Rightarrow> string" where
  \<open>placemark_text str i wp =
     ''\<newline>''
     @ ''    <Placemark>\<newline>''
     @ ''      <name>WP'' @ [chr (65 + i)] @ ''</name>\<newline>''
     @ ''      <description>Waypoint '' @ [chr (65 + i)] @ ''</description>\<newline>''
     @ ''      <Point>\<newline>''
     @ ''        <coordinates>'' @ coord_token str wp @ ''</coordinates>\<newline>''
     @ ''      </Point>\<newline>''
     @ ''    </Placemark>\<newline>''
     @ ''        ''\<close>

definition path_open :: string where
  \<open>path_open =
     ''\<newline>''
     @ ''    <Placemark>\<newline>''
     @ ''      <name>Flight Path</name>\<newline>''
     @ ''      <LineString>\<newline>''
     @ ''        <coordinates>\<newline>''
     @ ''        ''\<close>

definition path_line :: "(real \<Rightarrow> string) \<Rightarrow> waypoint \<Rightarrow> string" where
  \<open>path_line str wp = ''          '' @ coord_token str wp @ ''\<newline>''\<close>

definition path_close :: string where
  \<open>path_close =
     ''\<newline>''
     @ ''        </coordinates>\<newline>''
     @ ''      </LineString>\<newline>''
     @ ''      <Style>\<newline>''
     @ ''        <LineStyle>\<newline>''
     @ ''          <color>ff00ff00</color>\<newline>''
     @ ''          <width>3</width>\<newline>''
     @ ''        </LineStyle>\<newline>''
     @ ''      </Style>\<newline>''
     @ ''    </Placemark>\<newline>''
     @ ''        ''\<close>

definition kml_footer :: string where
  \<open>kml_footer =
     ''\<newline>''
     @ ''  </Document>\<newline>''
     @ ''</kml>\<newline>''
     @ ''    ''\<close>

definition create_kml_manual :: "(real \<Rightarrow> string) \<Rightarrow> waypoint list \<Rightarrow> string \<Rightarrow> string \<Rightarrow> string" where
  "create_kml_manual str waypoints date kml_filename =
     (let kml_template = kml_header date;
          kml_template =
            fold (\<lambda>(i, wp) kml_template. kml_template @ placemark_text str i wp)
              (enumerate 0 waypoints) kml_template;
          kml_template =
            (if 1 < length waypoints then
               (let kml_template = kml_template @ path_open;
                    kml_template =
                      fold (\<lambda>wp kml_template. kml_template @ path_line str wp) waypoints kml_template;
                    kml_template =
                      (if 2 < length waypoints then kml_template @ path_line str (waypoints ! 0)
                       else kml_template)
                in kml_template @ path_close)
             else kml_template)
      in kml_template @ kml_footer)"









text \<open>\<^verbatim>\<open>str\<close> on the coordinates of the examples.\<close>

definition str_table :: "real \<Rightarrow> string" where
  "str_table x =
     (if x = 24.6 then ''24.6'' else if x = 72.5 then ''72.5'' else if x = 24.601 then ''24.601''
      else if x = 72.501 then ''72.501'' else if x = 24.602 then ''24.602'' else ''0.0'')"





section \<open>Properties\<close>

subsection \<open>Formatting numbers\<close>

lemma replicate_numeral: "replicate (numeral k) x = x # replicate (pred_numeral k) x"
  by (simp add: numeral_eq_Suc)

lemma str_nat_0: "str_nat 0 = ''0''"
  by (simp add: str_nat.simps digit_char_def)

lemma str_nat_1: "str_nat 1 = ''1''" "str_nat (Suc 0) = ''1''"
  by (simp_all add: str_nat.simps digit_char_def)

lemmas str_nat_numeral = str_nat.simps [of "numeral k" for k]

lemmas fmt_eval = replicate_numeral str_nat_0 str_nat_1 str_nat_numeral digit_char_def zfill_def ljust_def

lemma digit_cases: "d < 10 \<Longrightarrow> d = 0 \<or> d = 1 \<or> d = 2 \<or> d = 3 \<or> d = 4 \<or> d = 5 \<or> d = 6 \<or> d = 7 \<or> d = 8 \<or> d = (9::nat)"
  by arith

lemma digit_char_num: "d < 10 \<Longrightarrow> num_char (digit_char d)"
  using digit_cases [of d] by (auto simp: digit_char_def num_char_def)

lemma num_char_simps: "num_char CHR ''0''" "num_char CHR ''-''" "num_char CHR ''.''"
  "\<not> num_char CHR 0x27" "\<not> num_char CHR 0x22"
  by (simp_all add: num_char_def)

lemma str_nat_num: "list_all num_char (str_nat n)"
proof (induction n rule: str_nat.induct)
  case (1 n)
  show ?case
  proof (cases "n < 10")
    case True
    then show ?thesis
      using digit_char_num [of n] by (subst str_nat.simps) simp
  next
    case False
    have "n mod 10 < 10" by simp
    then have "num_char (digit_char (n mod 10))" by (rule digit_char_num)
    with False "1.IH" show ?thesis
      by (subst str_nat.simps) simp
  qed
qed

lemma zfill_num: "list_all num_char s \<Longrightarrow> list_all num_char (zfill w s)"
  by (auto simp: zfill_def list_all_iff num_char_simps)

lemma fmt_02d_num: "list_all num_char (fmt_02d i)"
  by (simp add: fmt_02d_def zfill_num str_nat_num num_char_simps)

lemma fmt_4f_num: "list_all num_char (fmt_4f x)"
  by (simp add: fmt_4f_def Let_def zfill_num str_nat_num num_char_simps)

lemma list_all_drop: "list_all P xs \<Longrightarrow> list_all P (drop n xs)"
  by (metis append_take_drop_id list_all_append)

lemma sec_format_num: "list_all num_char (sec_format s)"
proof -
  have "list_all num_char (replicate k CHR ''0'')" for k
    by (simp add: list_all_iff num_char_simps)
  then show ?thesis
    by (simp add: sec_format_def Let_def ljust_def fmt_02d_num fmt_4f_num list_all_drop num_char_simps)
qed

lemma seconds_field_extract:
  assumes "list_all num_char a" and "list_all num_char b" and "list_all num_char s"
  shows "seconds_field (a @ [CHR 0xB0] @ b @ [CHR 0x27] @ s @ [CHR 0x22] @ d) = s"
proof -
  have a: "\<forall>c\<in>set a. c \<noteq> CHR 0x27" and b: "\<forall>c\<in>set b. c \<noteq> CHR 0x27"
    and s: "\<forall>c\<in>set s. c \<noteq> CHR 0x22"
    using assms num_char_simps by (auto simp: list_all_iff)
  have "dropWhile (\<lambda>c. c \<noteq> CHR 0x27) (a @ [CHR 0xB0] @ b @ [CHR 0x27] @ s @ [CHR 0x22] @ d)
      = [CHR 0x27] @ s @ [CHR 0x22] @ d"
    using a b by (simp add: dropWhile_append3 dropWhile_append2)
  moreover have "takeWhile (\<lambda>c. c \<noteq> CHR 0x22) (s @ [CHR 0x22] @ d) = s"
    using s by (simp add: takeWhile_append2)
  ultimately show ?thesis
    by (simp add: seconds_field_def)
qed

lemma seconds_field_formatted:
  "seconds_field (decimal_to_dms_formatted decimal is_lat) = sec_format (snd (snd (dms_carry (dms_naive decimal))))"
proof -
  obtain deg min_val sec where t: "dms_carry (dms_naive decimal) = (deg, min_val, sec)"
    by (cases "dms_carry (dms_naive decimal)") auto
  show ?thesis
    using seconds_field_extract [OF fmt_02d_num fmt_02d_num sec_format_num]
    by (simp add: decimal_to_dms_formatted_def dms_render_def t)
qed

lemma digit_char_eq_6: "d < 10 \<Longrightarrow> digit_char d = CHR ''6'' \<Longrightarrow> d = 6"
  using digit_cases [of d] by (auto simp: digit_char_def)

lemma digit_char_eq_0: "d < 10 \<Longrightarrow> digit_char d = CHR ''0'' \<Longrightarrow> d = 0"
  using digit_cases [of d] by (auto simp: digit_char_def)

lemma dms_naive_bounds:
  assumes "dms_naive decimal = (deg, min_val, sec)"
  shows "0 \<le> deg" and "0 \<le> min_val" and "min_val < 60" and "0 \<le> sec" and "sec < 60"
proof -
  define a where "a = \<bar>decimal\<bar>"
  define mf where "mf = (a - of_int \<lfloor>a\<rfloor>) * 60"
  have a0: "0 \<le> a" by (simp add: a_def)
  have fl: "of_int \<lfloor>a\<rfloor> \<le> a" "a < of_int \<lfloor>a\<rfloor> + 1"
    by linarith+
  have mf0: "0 \<le> mf"
    using fl by (simp add: mf_def)
  have "a - of_int \<lfloor>a\<rfloor> < 1"
    using fl by linarith
  then have mf60: "mf < 60"
    by (simp add: mf_def)
  have flm: "of_int \<lfloor>mf\<rfloor> \<le> mf" "mf < of_int \<lfloor>mf\<rfloor> + 1"
    by linarith+
  have p1: "py_int a = \<lfloor>a\<rfloor>" using a0 by (simp add: py_int_def)
  have p2: "py_int mf = \<lfloor>mf\<rfloor>" using mf0 by (simp add: py_int_def)
  have "dms_naive decimal = (\<lfloor>a\<rfloor>, \<lfloor>mf\<rfloor>, (mf - of_int \<lfloor>mf\<rfloor>) * 60)"
    unfolding dms_naive_def Let_def a_def [symmetric] p1 mf_def [symmetric] p2 by (rule refl)
  with assms have eqs: "deg = \<lfloor>a\<rfloor>" "min_val = \<lfloor>mf\<rfloor>" "sec = (mf - of_int \<lfloor>mf\<rfloor>) * 60"
    by simp_all
  show "0 \<le> deg" using a0 eqs by simp
  show "0 \<le> min_val" using mf0 eqs by simp
  show "min_val < 60" using mf60 eqs by (simp add: floor_less_iff)
  show "0 \<le> sec" using flm by (simp add: eqs)
  have "mf - of_int \<lfloor>mf\<rfloor> < 1"
    using flm by linarith
  then show "sec < 60" by (simp add: eqs)
qed

lemma sec_format_0: "sec_format 0 = ''00.0000''"
proof -
  have "fmt_4f 0 = ''0.0000''"
    by (simp add: fmt_4f_def round_half_even_def Let_def fmt_eval)
  then show ?thesis
    by (simp add: sec_format_def py_int_def fmt_02d_def fmt_eval)
qed

lemma fmt_02d_two_digits:
  assumes "0 \<le> i" and "i < 100"
  shows "fmt_02d i = [digit_char (nat i div 10), digit_char (nat i mod 10)]"
proof (cases "nat i < 10")
  case True
  then have "str_nat (nat i) = [digit_char (nat i)]"
    by (subst str_nat.simps) simp
  with True assms show ?thesis
    by (simp add: fmt_02d_def zfill_def digit_char_def)
next
  case False
  then have "nat i div 10 < 10" using assms by auto
  then have "str_nat (nat i div 10) = [digit_char (nat i div 10)]"
    by (subst str_nat.simps) simp
  with False have "str_nat (nat i) = [digit_char (nat i div 10), digit_char (nat i mod 10)]"
    by (subst str_nat.simps) simp
  with assms show ?thesis
    by (simp add: fmt_02d_def zfill_def)
qed

lemma sec_format_not_60:
  assumes "0 \<le> s" and "s < 59.99995"
  shows "sec_format s \<noteq> ''60.0000''"
proof
  assume eq: "sec_format s = ''60.0000''"
  define i where "i = py_int s"
  have i: "0 \<le> i" "i < 60"
    using assms by (simp_all add: i_def py_int_def floor_less_iff)
  then have two: "fmt_02d i = [digit_char (nat i div 10), digit_char (nat i mod 10)]"
    by (intro fmt_02d_two_digits) auto
  from eq have "digit_char (nat i div 10) = CHR ''6''" and "digit_char (nat i mod 10) = CHR ''0''"
    by (simp_all add: sec_format_def Let_def i_def [symmetric] two)
  moreover have "nat i div 10 < 10" using i by auto
  ultimately have "nat i div 10 = 6" and "nat i mod 10 = 0"
    using digit_char_eq_6 digit_char_eq_0 by auto
  then have "nat i = 60" using div_mult_mod_eq [of "nat i" 10] by simp
  with i show False by simp
qed

subsection \<open>The DMS formatter: claims\<close>

text \<open>
  Claim C3. Let the naive decomposition of lines 34 to 40 give \<open>(deg, min_val, sec)\<close>. When
  \<open>sec\<close> is at least 59.99995, the seconds are reset to 0 and the minutes incremented,
  and minutes that reach 60 are reset to 0 with the degrees incremented; the formatted
  string then shows the seconds field \<open>00.0000\<close> behind the carried minutes and degrees.
  For every input, the seconds field of the result never reads \<open>60.0000\<close>.
\<close>
theorem seconds_carry:
  assumes "dms_naive decimal = (deg, min_val, sec)"
  shows "(59.99995 \<le> sec \<longrightarrow>
            dms_carry (dms_naive decimal) = (if 60 \<le> min_val + 1 then (deg + 1, 0, 0) else (deg, min_val + 1, 0)) \<and>
            decimal_to_dms_formatted decimal is_lat =
              (if 60 \<le> min_val + 1 then fmt_02d (deg + 1) @ [CHR 0xB0] @ ''00''
               else fmt_02d deg @ [CHR 0xB0] @ fmt_02d (min_val + 1))
              @ [CHR 0x27] @ ''00.0000'' @ [CHR 0x22] @ dms_direction decimal is_lat)
       \<and> seconds_field (decimal_to_dms_formatted decimal is_lat) \<noteq> ''60.0000''"
proof (cases "59.99995 \<le> sec")
  case True
  have z: "fmt_02d 0 = ''00''"
    by (simp add: fmt_02d_def fmt_eval)
  from True have c: "dms_carry (dms_naive decimal) =
      (if 60 \<le> min_val + 1 then (deg + 1, 0, 0) else (deg, min_val + 1, 0))"
    by (simp add: assms dms_carry_def)
  then have "snd (snd (dms_carry (dms_naive decimal))) = 0"
    by simp
  then have "seconds_field (decimal_to_dms_formatted decimal is_lat) = ''00.0000''"
    by (simp add: seconds_field_formatted sec_format_0)
  moreover have "decimal_to_dms_formatted decimal is_lat =
      (if 60 \<le> min_val + 1 then fmt_02d (deg + 1) @ [CHR 0xB0] @ ''00''
       else fmt_02d deg @ [CHR 0xB0] @ fmt_02d (min_val + 1))
      @ [CHR 0x27] @ ''00.0000'' @ [CHR 0x22] @ dms_direction decimal is_lat"
    by (simp add: decimal_to_dms_formatted_def c dms_render_def sec_format_0 z)
  ultimately show ?thesis
    using c by simp
next
  case False
  then have "dms_carry (dms_naive decimal) = (deg, min_val, sec)"
    by (simp add: assms dms_carry_def)
  then have "seconds_field (decimal_to_dms_formatted decimal is_lat) = sec_format sec"
    by (simp add: seconds_field_formatted)
  moreover have "sec_format sec \<noteq> ''60.0000''"
    using False dms_naive_bounds(4) [OF assms] by (intro sec_format_not_60) simp_all
  ultimately show ?thesis
    using False by simp
qed

lemma dms_naive_example: "dms_naive (1499999 / 90000000) = (0, 0, 59.99996)"
  by (simp add: dms_naive_def py_int_def Let_def)

lemma dms_naive_example2: "dms_naive (89999999 / 90000000) = (0, 59, 59.99996)"
  by (simp add: dms_naive_def py_int_def Let_def)

theorem seconds_carry_witness:
  "dms_naive (1499999 / 90000000) = (0, 0, 59.99996) \<and>
   decimal_to_dms_formatted (1499999 / 90000000) True =
     ''00'' @ [CHR 0xB0] @ ''01'' @ [CHR 0x27] @ ''00.0000'' @ [CHR 0x22] @ ''N'' \<and>
   seconds_field (decimal_to_dms_formatted (1499999 / 90000000) True) \<noteq> ''60.0000'' \<and>
   dms_naive (89999999 / 90000000) = (0, 59, 59.99996) \<and>
   decimal_to_dms_formatted (89999999 / 90000000) False =
     ''01'' @ [CHR 0xB0] @ ''00'' @ [CHR 0x27] @ ''00.0000'' @ [CHR 0x22] @ ''E''"
  using seconds_carry [OF dms_naive_example, of True] seconds_carry [OF dms_naive_example2, of False]
  by (simp add: dms_naive_example dms_naive_example2 dms_direction_def fmt_02d_def fmt_eval seconds_field_def)

lemma sec_format_example: "sec_format 30.99996 = ''30.0000''"
proof -
  have "fmt_4f 0.99996 = ''1.0000''"
    unfolding fmt_4f_def
    apply (simp add: round_half_even_def Let_def)
    apply (simp add: fmt_eval)
    done
  moreover have "py_int 30.99996 = 30" 
    by (simp add: py_int_def)
  moreover have "(30.99996::real) - of_int 30 = 0.99996"
    by simp
  moreover have "fmt_02d 30 = ''30''"
    by (simp add: fmt_02d_def fmt_eval)
  ultimately show ?thesis
    unfolding sec_format_def Let_def by simp
qed

text \<open>
  Claim C4. The formatter writes the seconds as two integer digits and four fractional
  digits, but the two parts are formatted apart (lines 55 to 64): when the fraction of the
  seconds rounds up to 1.0000, its digits \<open>0000\<close> are kept and the carry into the integer
  seconds is lost. At 0.0086111 degrees the seconds are 30.99996, which is 31.0000 to four
  decimal places; the function returns a seconds field of 30.0000.
\<close>
theorem seconds_fraction_carry_lost:
  "dms_naive (86111 / 10000000) = (0, 0, 30.99996) \<and>
   decimal_to_dms_formatted (86111 / 10000000) True =
     ''00'' @ [CHR 0xB0] @ ''00'' @ [CHR 0x27] @ ''30.0000'' @ [CHR 0x22] @ ''N''"
proof -
  have n: "dms_naive (86111 / 10000000) = (0, 0, 30.99996)"
    by (simp add: dms_naive_def py_int_def Let_def)
  have z: "fmt_02d 0 = ''00''"
    by (simp add: fmt_02d_def fmt_eval)
  have c: "dms_carry (dms_naive (86111 / 10000000)) = (0, 0, 30.99996)"
    unfolding n by (simp add: dms_carry_def)
  have "decimal_to_dms_formatted (86111 / 10000000) True =
     ''00'' @ [CHR 0xB0] @ ''00'' @ [CHR 0x27] @ ''30.0000'' @ [CHR 0x22] @ ''N''"
    unfolding decimal_to_dms_formatted_def c dms_render_def prod.case sec_format_example z
    by (simp add: dms_direction_def)
  with n show ?thesis
    by (rule conjI)
qed

text \<open>The specification's example: zero degrees of latitude.\<close>

lemma dms_zero:
  "decimal_to_dms_formatted 0 True = ''00'' @ [CHR 0xB0] @ ''00'' @ [CHR 0x27] @ ''00.0000'' @ [CHR 0x22] @ ''N''"
proof -
  have n: "dms_naive 0 = (0, 0, 0)"
    by (simp add: dms_naive_def py_int_def Let_def)
  have z: "fmt_02d 0 = ''00''"
    by (simp add: fmt_02d_def fmt_eval)
  have "dms_carry (0, 0, 0) = (0, 0, 0)"
    by (simp add: dms_carry_def)
  then show ?thesis
    by (simp add: decimal_to_dms_formatted_def n dms_render_def sec_format_0 z dms_direction_def)
qed

subsection \<open>Distance, area and axis order\<close>


lemma fold_upt_sum:
  "fold (\<lambda>i a. a + f i) [0 ..< n] (a0::real) = a0 + (\<Sum>i<n. f i)"
  by (induction n) (simp_all add: add.assoc)





text \<open>
  Claim C7. When a latitude is outside \<open>[-90, 90]\<close> or a longitude outside
  \<open>[-180, 180]\<close>, the distance function reports an error and returns 0: the check is
  made inside the function, and its exception never reaches the caller.
\<close>
theorem distance_range_check:
  assumes "\<not> (- 90 \<le> lat1 \<and> lat1 \<le> 90 \<and> - 90 \<le> lat2 \<and> lat2 \<le> 90)
         \<or> \<not> (- 180 \<le> lon1 \<and> lon1 \<le> 180 \<and> - 180 \<le> lon2 \<and> lon2 \<le> 180)"
  shows "calculate_distance lat1 lon1 lat2 lon2 =
           (0, [StError ''Distance calculation error: '' (ValueError ''Invalid coordinate values'')])"
  using assms by (auto simp: calculate_distance_def)

theorem distance_range_check_witness:
  "\<not> ((91::real) \<le> 90) \<and>
   calculate_distance 91 72.5 24.6 72.5 = (0, [StError ''Distance calculation error: '' (ValueError ''Invalid coordinate values'')]) \<and>
   calculate_distance 24.6 72.5 24.6 (- 200) = (0, [StError ''Distance calculation error: '' (ValueError ''Invalid coordinate values'')])"
  using distance_range_check [of 91 "24.6" "72.5" "72.5"] distance_range_check [of "24.6" "24.6" "72.5" "- 200"]
  by simp




text \<open>
  Claim C6. For at least three points, the fallback area is \<open>|sum| * R\<^sup>2 / 2\<close> square
  metres with \<open>R = 6371000\<close>, divided by 10000, where the sum runs over every index
  \<open>i\<close> and its successor \<open>(i + 1) mod n\<close> (so the last point is paired with the first)
  and adds \<open>(lon2_rad - lon1_rad) * (2 + sin lat1_rad + sin lat2_rad)\<close>. For fewer than
  three points the result is 0.
\<close>
theorem area_fallback_sum:
  "(3 \<le> length cs \<longrightarrow>
      calculate_polygon_area_approximate cs =
        \<bar>\<Sum>i<length cs.
            (radians (snd (cs ! ((i + 1) mod length cs))) - radians (snd (cs ! i)))
            * (2 + sin (radians (fst (cs ! i))) + sin (radians (fst (cs ! ((i + 1) mod length cs)))))\<bar>
        * 6371000\<^sup>2 / 2 / 10000)
   \<and> (length cs < 3 \<longrightarrow> calculate_polygon_area_approximate cs = 0)"
proof (intro conjI impI)
  assume n: "3 \<le> length cs"
  have t: "area_term cs i j =
      (radians (snd (cs ! j)) - radians (snd (cs ! i)))
      * (2 + sin (radians (fst (cs ! i))) + sin (radians (fst (cs ! j))))" for i j
    by (simp add: area_term_def case_prod_beta Let_def)
  have "fold (\<lambda>i area. let j = (i + 1) mod length cs in area + area_term cs i j) [0 ..< length cs] 0
      = 0 + (\<Sum>i<length cs. area_term cs i ((i + 1) mod length cs))"
    unfolding Let_def by (rule fold_upt_sum)
  with n show "calculate_polygon_area_approximate cs =
        \<bar>\<Sum>i<length cs.
            (radians (snd (cs ! ((i + 1) mod length cs))) - radians (snd (cs ! i)))
            * (2 + sin (radians (fst (cs ! i))) + sin (radians (fst (cs ! ((i + 1) mod length cs)))))\<bar>
        * 6371000\<^sup>2 / 2 / 10000"
    by (simp add: calculate_polygon_area_approximate_def Let_def t power2_eq_square)
next
  assume "length cs < 3"
  then show "calculate_polygon_area_approximate cs = 0"
    by (simp add: calculate_polygon_area_approximate_def)
qed

theorem area_fallback_sum_witness:
  "3 \<le> length [(0, 0), (0, 1), (1, 0 :: real)] \<and>
   calculate_polygon_area_approximate [(0, 0), (0, 1), (1, 0)] =
     \<bar>radians 1 * 2 + (0 - radians 1) * (2 + sin (radians 1)) + 0\<bar> * 6371000\<^sup>2 / 2 / 10000 \<and>
   length [(0, 0), (0, 1 :: real)] < 3 \<and>
   calculate_polygon_area_approximate [(0, 0), (0, 1)] = 0"
proof -
  have s: "{..<3::nat} = {0, 1, 2}" by auto
  have r0: "radians 0 = 0" by (simp add: radians_def)
  show ?thesis
    using area_fallback_sum [of "[(0, 0), (0, 1), (1, 0)]"] area_fallback_sum [of "[(0, 0), (0, 1)]"]
    by (simp add: s r0)
qed

text \<open>
  Claim C10. The axis-order normalizer is idempotent. A result that differs from its
  two-element argument is the swapped pair, and it passes the latitude-first range test,
  so a second application leaves it unchanged.
\<close>
theorem normalizer_idempotent:
  "ensure_lat_lon_order (ensure_lat_lon_order c) = ensure_lat_lon_order c
   \<and> (length c = 2 \<and> ensure_lat_lon_order c \<noteq> c \<longrightarrow>
        ensure_lat_lon_order c = [c ! 1, c ! 0]
        \<and> - 90 \<le> ensure_lat_lon_order c ! 0 \<and> ensure_lat_lon_order c ! 0 \<le> 90
        \<and> - 180 \<le> ensure_lat_lon_order c ! 1 \<and> ensure_lat_lon_order c ! 1 \<le> 180)"
  by (simp add: ensure_lat_lon_order_def)

theorem normalizer_idempotent_witness:
  "ensure_lat_lon_order [120, 45] = [45, 120] \<and> length [120, 45 :: real] = 2 \<and>
   ensure_lat_lon_order (ensure_lat_lon_order [120, 45]) = [45, 120] \<and>
   ensure_lat_lon_order [45, 45] = [45, 45]"
  using normalizer_idempotent [of "[120, 45]"]
  by (simp add: ensure_lat_lon_order_def)

subsection \<open>The KML parser\<close>













lemma parse_coord_example: "parse_coord float_table ''72.5,24.6,0'' = ([(24.6, 72.5)], [])"
  by (simp add: parse_coord_def float_table_def in_range_def the_finite_def)

lemma strip_example: "strip ''72.5,24.6,0'' = ''72.5,24.6,0''"
  by (simp add: strip_def is_space_def)

lemma split_ws_example: "split_ws [] ''72.5,24.6,0'' = [''72.5,24.6,0'']"
  by (simp add: is_space_def)

lemma parse_elem_example:
  "parse_elem float_table (Element t (Some ''72.5,24.6,0'') []) = ([(24.6, 72.5)], [])"
  unfolding parse_elem_def Let_def element.sel option.case strip_example split_ws_example
  by (simp add: parse_coord_example)

lemma coord_elements_20:
  "ns \<noteq> ''{http://www.opengis.net/kml/2.2}'' \<Longrightarrow> ns \<noteq> [] \<Longrightarrow>
   coord_elements c (point_tree ns d) = []"
  by (auto simp: coord_elements_def findall1_def findall2_def descendants_def point_tree_def)

lemma probe_empty:
  assumes "\<And>ns. coord_elements ns root_elem = []"
  shows "probe float root_elem nss ([], []) = ([], [])"
  by (induction nss) (simp_all add: assms)

lemma unique_coords_Nil: "unique_coords [] = []"
  by (simp add: unique_coords_def)

text \<open>
  Claim C2. The candidates are tried in order and the first that gives a point wins, but
  the three searches of a candidate with a namespace all spell out the KML 2.2 URI (lines
  189 to 191) and never use \<open>ns\<close>. A document whose elements sit under the KML 2.0 or the
  KML 2.1 URI matches neither those searches nor the bare ones of the last candidate: its
  coordinates are not returned.
\<close>

theorem kml20_coordinates_lost:
  "parse_kml (fromstring_table [(point_doc '' xmlns=\"http://earth.google.com/kml/2.0\"'' ''x'',
                                 point_tree ''{http://earth.google.com/kml/2.0}'' ''x'')])
      float (Inr (point_doc '' xmlns=\"http://earth.google.com/kml/2.0\"'' ''x'')) = ([], [])
   \<and> parse_kml (fromstring_table [(point_doc '' xmlns=\"http://earth.google.com/kml/2.1\"'' ''x'',
                                 point_tree ''{http://earth.google.com/kml/2.1}'' ''x'')])
      float (Inr (point_doc '' xmlns=\"http://earth.google.com/kml/2.1\"'' ''x'')) = ([], [])"
proof -
  have "parse_kml (fromstring_table [(d, point_tree ns ''x'')]) float (Inr d) = ([], [])"
    if "ns \<noteq> ''{http://www.opengis.net/kml/2.2}''" and "ns \<noteq> []" for ns d
  proof -
    have "probe float (point_tree ns ''x'') namespaces ([], []) = ([], [])"
      by (rule probe_empty) (rule coord_elements_20 [OF that])
    then show ?thesis
      by (simp add: parse_kml_def parse_root_def fromstring_table_def unique_coords_Nil)
  qed
  then show ?thesis by simp
qed

lemma coord_elements_22:
  "coord_elements [(''kml'', ''http://www.opengis.net/kml/2.2'')] (point_tree ''{http://www.opengis.net/kml/2.2}'' d) =
     [Element ''{http://www.opengis.net/kml/2.2}coordinates'' (Some ''72.5,24.6,0'') [],
      Element ''{http://www.opengis.net/kml/2.2}coordinates'' (Some ''72.5,24.6,0'') []]"
  by (simp add: coord_elements_def findall1_def findall2_def descendants_def point_tree_def)

lemma unique_coords_twice: "unique_coords [c, c] = [c]"
  by (simp add: unique_coords_def)

text \<open>The same document under the KML 2.2 URI gives its point.\<close>

lemma kml22_coordinates_found:
  "parse_kml (fromstring_table [(d, point_tree ''{http://www.opengis.net/kml/2.2}'' ''x'')]) float_table (Inr d)
     = ([(24.6, 72.5)], [])"
  apply (simp add: parse_kml_def parse_root_def fromstring_table_def namespaces_def)
  apply (simp only: coord_elements_22)
  apply (simp add: parse_elem_example unique_coords_twice)
  done

text \<open>
  Claim C1. When the strict parse raises \<^verbatim>\<open>ParseError\<close>, the handler's construction of a
  recovering parser raises \<^verbatim>\<open>TypeError\<close>; the outer handler reports it and the function
  returns no point, whatever the document holds.
\<close>

theorem lenient_parse_fails:
  assumes "fromstring content = Inl ParseError"
  shows "parse_kml fromstring float (Inr content) = ([], [StError ''KML Parsing Error: '' TypeError])"
  using assms by (simp add: parse_kml_def parse_root_def XMLParser_recover_def)

theorem lenient_parse_fails_witness:
  "fromstring_table [] (point_doc '' xmlns=\"http://www.opengis.net/kml/2.2\"'' ''Survey & boundary'') = Inl ParseError
   \<and> parse_kml (fromstring_table []) float_table
         (Inr (point_doc '' xmlns=\"http://www.opengis.net/kml/2.2\"'' ''Survey & boundary''))
       = ([], [StError ''KML Parsing Error: '' TypeError])"
proof -
  have f: "fromstring_table [] (point_doc '' xmlns=\"http://www.opengis.net/kml/2.2\"'' ''Survey & boundary'') = Inl ParseError"
    by (simp add: fromstring_table_def)
  show ?thesis
    using f lenient_parse_fails [of "fromstring_table []"
        "point_doc '' xmlns=\"http://www.opengis.net/kml/2.2\"'' ''Survey & boundary''" float_table]
    by simp
qed









subsection \<open>The round trip through the KML codec\<close>







































text \<open>The document written for a single waypoint.\<close>

lemma chr_A: "chr 65 = CHR ''A''"
  unfolding chr_def by code_simp

lemma create_kml_manual_example:
  \<open>create_kml_manual str_table [\<lparr>wp_lat = 24.6, wp_lon = 72.5\<rparr>] ''2026-11-04'' ''plan'' =
     ''<?xml version="1.0" encoding="UTF-8"?>\<newline>''
     @ ''<kml xmlns="http://www.opengis.net/kml/2.2">\<newline>''
     @ ''  <Document>\<newline>''
     @ ''    <name>Flight Plan 2026-11-04</name>\<newline>''
     @ ''    <description>Drone Survey Waypoints</description>\<newline>''
     @ ''    \<newline>''
     @ ''    <Placemark>\<newline>''
     @ ''      <name>WPA</name>\<newline>''
     @ ''      <description>Waypoint A</description>\<newline>''
     @ ''      <Point>\<newline>''
     @ ''        <coordinates>72.5,24.6,0</coordinates>\<newline>''
     @ ''      </Point>\<newline>''
     @ ''    </Placemark>\<newline>''
     @ ''        \<newline>''
     @ ''  </Document>\<newline>''
     @ ''</kml>\<newline>''
     @ ''    ''\<close>
  by (simp add: create_kml_manual_def kml_header_def placemark_text_def coord_token_def kml_footer_def
      str_table_def chr_A enumerate_eq_zip)

end
